theory Spec2Isabelle
  imports Main
begin

section \<open>One-to-one logical operators and the Limit operator\<close>

text \<open>
  A shallow embedding of
  \<^verbatim>\<open>python/ray/data/_internal/logical/operators/one_to_one_operator.py\<close>:
  the classes \<^verbatim>\<open>AbstractOneToOne\<close> and \<^verbatim>\<open>Limit\<close>. A logical operator is a node of
  the plan; it holds no data and answers planning questions by asking the operator it
  depends on.
\<close>

subsection \<open>Errors\<close>

text \<open>
  A failed \<^verbatim>\<open>assert cond, len(self._input_dependencies)\<close> raises \<^verbatim>\<open>AssertionError\<close>
  carrying that length; indexing an empty list raises \<^verbatim>\<open>IndexError\<close>; \<open>Raised\<close> stands
  for an exception raised by an operator class defined outside this file.
\<close>

datatype error = AssertionError nat | IndexError | Raised string

subsection \<open>Block metadata\<close>

text \<open>
  Modelled from the spec: the value type \<^verbatim>\<open>BlockMetadata\<close> of \<^verbatim>\<open>ray.data.block\<close>, which
  the file imports and builds with the four keyword arguments below. The spec gives it as
  an optional row count, an optional byte size, a sequence of input file identifiers and
  optional execution statistics. The type of the statistics is left as the parameter
  \<open>'e\<close>.
\<close>

record 'e BlockMetadata =
  num_rows :: "int option"
  size_bytes :: "int option"
  input_files :: "string list"
  exec_stats :: "'e option"

subsection \<open>Operators\<close>

text \<open>
  The class of an operator decides which method bodies run. \<open>Limit\<close> is the class of
  this file, with its field \<^verbatim>\<open>_limit\<close>. \<open>Foreign\<close> is any operator class whose methods
  are written outside this file (\<^verbatim>\<open>LogicalOperator\<close> itself and its other subclasses):
  its three fields are what its \<^verbatim>\<open>infer_metadata\<close>, \<^verbatim>\<open>infer_schema\<close> and
  \<^verbatim>\<open>can_modify_num_rows\<close> do, taken as parameters. The types \<open>'m\<close> and \<open>'c\<close> of the
  first two are fixed by the reading of a method call chosen below.
\<close>

datatype ('m, 'c) kind =
    Limit (limit: int)
  | Foreign (foreign_infer_metadata: 'm) (foreign_infer_schema: 'c)
      (foreign_can_modify_num_rows: bool)

text \<open>
  Modelled from the spec: the fields of the base class \<^verbatim>\<open>LogicalOperator\<close> of
  \<^verbatim>\<open>ray.data._internal.logical.interfaces\<close>, whose constructor the file calls with a
  name, a list of dependencies and an optional number of outputs. The spec gives them as
  a name, an ordered sequence of upstream operators and an optional fixed count of output
  partitions.
\<close>

datatype ('m, 'c) LogicalOperator =
  LogicalOperator
    (name: string)
    (input_dependencies: "('m, 'c) LogicalOperator list")
    (num_outputs: "int option")
    (kind: "('m, 'c) kind")

text \<open>
  In the reading used for the methods below, a call of a foreign operator's
  \<^verbatim>\<open>infer_metadata\<close> or \<^verbatim>\<open>infer_schema\<close> is its result: a value or a raised error.
  The type of schemas is the parameter \<open>'s\<close>.
\<close>

type_synonym ('s, 'e) operator =
  "(error + 'e BlockMetadata, error + 's option) LogicalOperator"

subsection \<open>Formatting the name\<close>

text \<open>Python's decimal text of an integer, as the f-string \<^verbatim>\<open>f"limit={limit}"\<close> uses it.\<close>

function str_nat :: "nat \<Rightarrow> string" where
  "str_nat n =
     (if n < 10 then [''0123456789'' ! n]
      else str_nat (n div 10) @ [''0123456789'' ! (n mod 10)])"
  by pat_completeness auto
termination
  by (relation "measure id") auto

definition str_int :: "int \<Rightarrow> string" where
  "str_int i = (if i < 0 then ''-'' @ str_nat (nat (- i)) else str_nat (nat i))"

subsection \<open>AbstractOneToOne\<close>

text \<open>
  \<^verbatim>\<open>super().__init__(name, [input_op] if input_op else [], num_outputs)\<close>.
  The test \<^verbatim>\<open>if input_op\<close> is Python's truth test, not a test for \<^verbatim>\<open>None\<close>: \<^verbatim>\<open>None\<close> is
  false, and an operator object is as true as the \<^verbatim>\<open>__bool__\<close> or \<^verbatim>\<open>__len__\<close> of its class
  makes it (true when the class defines neither). The file defines neither method, and
  its classes inherit from \<^verbatim>\<open>LogicalOperator\<close>, which is outside the file; so the truth
  value of an operator object is the parameter \<open>truth\<close>. The argument \<open>k\<close> is the class
  of the object under construction.
\<close>

definition AbstractOneToOne_init ::
  "(('m, 'c) LogicalOperator \<Rightarrow> bool) \<Rightarrow> ('m, 'c) kind \<Rightarrow> string
     \<Rightarrow> ('m, 'c) LogicalOperator option \<Rightarrow> int option \<Rightarrow> ('m, 'c) LogicalOperator" where
  "AbstractOneToOne_init truth k name' input_op num_outputs' =
     LogicalOperator name'
       (case input_op of
          None \<Rightarrow> []
        | Some d \<Rightarrow> (if truth d then [d] else []))
       num_outputs' k"

text \<open>\<^verbatim>\<open>return self._input_dependencies[0]\<close>: no check of the length comes first.\<close>

definition input_dependency ::
  "('m, 'c) LogicalOperator \<Rightarrow> error + ('m, 'c) LogicalOperator" where
  "input_dependency self =
     (case input_dependencies self of
        [] \<Rightarrow> Inl IndexError
      | d # _ \<Rightarrow> Inr d)"

subsection \<open>Limit\<close>

text \<open>
  \<^verbatim>\<open>super().__init__(f"limit={limit}", input_op)\<close> and then \<^verbatim>\<open>self._limit = limit\<close>.
  The third parameter of the base constructor keeps its default \<^verbatim>\<open>None\<close>. The
  annotation of \<^verbatim>\<open>input_op\<close> is \<^verbatim>\<open>LogicalOperator\<close>, so the constructor is given an
  operator; the base constructor applies its truth test to it.
\<close>

definition Limit_init ::
  "(('m, 'c) LogicalOperator \<Rightarrow> bool) \<Rightarrow> ('m, 'c) LogicalOperator \<Rightarrow> int
     \<Rightarrow> ('m, 'c) LogicalOperator" where
  "Limit_init truth input_op limit' =
     AbstractOneToOne_init truth (Limit limit') (''limit='' @ str_int limit')
       (Some input_op) None"

text \<open>\<^verbatim>\<open>can_modify_num_rows\<close>: \<^verbatim>\<open>return True\<close> in \<^verbatim>\<open>Limit\<close>.\<close>

definition can_modify_num_rows :: "('m, 'c) LogicalOperator \<Rightarrow> bool" where
  "can_modify_num_rows self =
     (case kind self of
        Limit l \<Rightarrow> True
      | Foreign m s c \<Rightarrow> c)"

lemma size_input_dependency:
  "length (input_dependencies self) = Suc 0 \<Longrightarrow>
     size (input_dependencies self ! 0) < size self"
  by (cases self) (auto simp: length_Suc_conv)

text \<open>
  \<^verbatim>\<open>infer_metadata\<close> with the two private methods it calls. Each of the two asserts
  that there is exactly one dependency and then asks that dependency for its metadata.
  The second assertion, \<^verbatim>\<open>isinstance(self._input_dependencies[0], LogicalOperator)\<close>,
  holds of every element of a list of operators.
\<close>

function infer_metadata :: "('s, 'e) operator \<Rightarrow> error + 'e BlockMetadata"
  and Limit_num_rows :: "('s, 'e) operator \<Rightarrow> error + int option"
  and Limit_input_files :: "('s, 'e) operator \<Rightarrow> error + string list" where
  "infer_metadata self =
     (case kind self of
        Foreign m s c \<Rightarrow> m
      | Limit l \<Rightarrow>
          (case Limit_num_rows self of
             Inl e \<Rightarrow> Inl e
           | Inr n \<Rightarrow>
               (case Limit_input_files self of
                  Inl e \<Rightarrow> Inl e
                | Inr fs \<Rightarrow>
                    Inr \<lparr>num_rows = n, size_bytes = None,
                         input_files = fs, exec_stats = None\<rparr>)))"
| "Limit_num_rows self =
     (if length (input_dependencies self) \<noteq> 1
      then Inl (AssertionError (length (input_dependencies self)))
      else case infer_metadata (input_dependencies self ! 0) of
             Inl e \<Rightarrow> Inl e
           | Inr m \<Rightarrow>
               (case num_rows m of
                  Some input_rows \<Rightarrow> Inr (Some (min input_rows (limit (kind self))))
                | None \<Rightarrow> Inr None))"
| "Limit_input_files self =
     (if length (input_dependencies self) \<noteq> 1
      then Inl (AssertionError (length (input_dependencies self)))
      else case infer_metadata (input_dependencies self ! 0) of
             Inl e \<Rightarrow> Inl e
           | Inr m \<Rightarrow> Inr (input_files m))"
  by pat_completeness auto
termination
proof (relation "measure (\<lambda>x. case x of
                     Inl self \<Rightarrow> 2 * size self + 1
                   | Inr (Inl self) \<Rightarrow> 2 * size self
                   | Inr (Inr self) \<Rightarrow> 2 * size self)", goal_cases)
  case 1
  show ?case by simp
next
  case (2 self l)
  show ?case by simp
next
  case (3 self l n)
  show ?case by simp
next
  case (4 self)
  then show ?case using size_input_dependency [of self] by simp
next
  case (5 self)
  then show ?case using size_input_dependency [of self] by simp
qed

text \<open>\<^verbatim>\<open>infer_schema\<close>: the same two assertions, then the dependency's schema.\<close>

function infer_schema :: "('s, 'e) operator \<Rightarrow> error + 's option" where
  "infer_schema self =
     (case kind self of
        Foreign m s c \<Rightarrow> s
      | Limit l \<Rightarrow>
          (if length (input_dependencies self) \<noteq> 1
           then Inl (AssertionError (length (input_dependencies self)))
           else infer_schema (input_dependencies self ! 0)))"
  by pat_completeness auto
termination
proof (relation "measure size", goal_cases)
  case 1
  show ?case by simp
next
  case (2 self l)
  then show ?case using size_input_dependency [of self] by simp
qed

subsection \<open>Inference with the effects of foreign operators made explicit\<close>

text \<open>
  A second reading of the same three methods, for the question whether a call can be
  repeated. Here a method call takes the state \<open>'w\<close> of everything outside the plan
  and returns it with its result, so a foreign operator may change that state. The
  bodies are those of \<open>infer_metadata\<close>, \<open>Limit_num_rows\<close>, \<open>Limit_input_files\<close>
  and \<open>infer_schema\<close> statement by statement, in the order Python runs them:
  \<^verbatim>\<open>_num_rows\<close> asks the dependency first, \<^verbatim>\<open>_input_files\<close> asks it again in the state
  the first call left. The methods of this file assign to no field outside the
  constructors, so the operators themselves are the same before and after a call.
\<close>

type_synonym ('s, 'e, 'w) effectful_operator =
  "('w \<Rightarrow> (error + 'e BlockMetadata) \<times> 'w,
    'w \<Rightarrow> (error + 's option) \<times> 'w) LogicalOperator"

function infer_metadata_st ::
    "('s, 'e, 'w) effectful_operator \<Rightarrow> 'w \<Rightarrow> (error + 'e BlockMetadata) \<times> 'w"
  and Limit_num_rows_st ::
    "('s, 'e, 'w) effectful_operator \<Rightarrow> 'w \<Rightarrow> (error + int option) \<times> 'w"
  and Limit_input_files_st ::
    "('s, 'e, 'w) effectful_operator \<Rightarrow> 'w \<Rightarrow> (error + string list) \<times> 'w" where
  "infer_metadata_st self w =
     (case kind self of
        Foreign m s c \<Rightarrow> m w
      | Limit l \<Rightarrow>
          (case Limit_num_rows_st self w of
             (Inl e, w1) \<Rightarrow> (Inl e, w1)
           | (Inr n, w1) \<Rightarrow>
               (case Limit_input_files_st self w1 of
                  (Inl e, w2) \<Rightarrow> (Inl e, w2)
                | (Inr fs, w2) \<Rightarrow>
                    (Inr \<lparr>num_rows = n, size_bytes = None,
                          input_files = fs, exec_stats = None\<rparr>, w2))))"
| "Limit_num_rows_st self w =
     (if length (input_dependencies self) \<noteq> 1
      then (Inl (AssertionError (length (input_dependencies self))), w)
      else case infer_metadata_st (input_dependencies self ! 0) w of
             (Inl e, w1) \<Rightarrow> (Inl e, w1)
           | (Inr m, w1) \<Rightarrow>
               (case num_rows m of
                  Some input_rows \<Rightarrow>
                    (Inr (Some (min input_rows (limit (kind self)))), w1)
                | None \<Rightarrow> (Inr None, w1)))"
| "Limit_input_files_st self w =
     (if length (input_dependencies self) \<noteq> 1
      then (Inl (AssertionError (length (input_dependencies self))), w)
      else case infer_metadata_st (input_dependencies self ! 0) w of
             (Inl e, w1) \<Rightarrow> (Inl e, w1)
           | (Inr m, w1) \<Rightarrow> (Inr (input_files m), w1))"
  by pat_completeness auto
termination
proof (relation "measure (\<lambda>x. case x of
                     Inl (self, w) \<Rightarrow> 2 * size self + 1
                   | Inr (Inl (self, w)) \<Rightarrow> 2 * size self
                   | Inr (Inr (self, w)) \<Rightarrow> 2 * size self)", goal_cases)
  case 1
  show ?case by simp
next
  case 2
  show ?case by simp
next
  case 3
  show ?case by simp
next
  case (4 self w)
  then show ?case using size_input_dependency [of self] by simp
next
  case (5 self w)
  then show ?case using size_input_dependency [of self] by simp
qed

function infer_schema_st ::
    "('s, 'e, 'w) effectful_operator \<Rightarrow> 'w \<Rightarrow> (error + 's option) \<times> 'w" where
  "infer_schema_st self w =
     (case kind self of
        Foreign m s c \<Rightarrow> s w
      | Limit l \<Rightarrow>
          (if length (input_dependencies self) \<noteq> 1
           then (Inl (AssertionError (length (input_dependencies self))), w)
           else infer_schema_st (input_dependencies self ! 0) w))"
  by pat_completeness auto
termination
proof (relation "measure (\<lambda>(self, w). size self)", goal_cases)
  case 1
  show ?case by simp
next
  case (2 self w l)
  then show ?case using size_input_dependency [of self] by simp
qed



subsection \<open>Example plans\<close>

text \<open>
  The upstream operators of the example scenarios: a source that reports 1000 rows, two
  input files and the schema \<open>col:int\<close>, and one that knows neither its row count nor
  its schema.
\<close>

abbreviation read_parquet :: "(string, nat) operator" where
  "read_parquet \<equiv>
     LogicalOperator ''read'' [] None
       (Foreign
          (Inr \<lparr>num_rows = Some 1000, size_bytes = Some 4096,
                input_files = [''a.parquet'', ''b.parquet''], exec_stats = Some 7\<rparr>)
          (Inr (Some ''col:int'')) False)"

abbreviation read_stream :: "(string, nat) operator" where
  "read_stream \<equiv>
     LogicalOperator ''stream'' [] None
       (Foreign
          (Inr \<lparr>num_rows = None, size_bytes = Some 4096,
                input_files = [''a.parquet'', ''b.parquet''], exec_stats = Some 7\<rparr>)
          (Inr None) True)"



text \<open>
  Two truth values for operator objects: that of Python's \<^verbatim>\<open>object\<close>, which is always
  true, and that of a base class whose \<^verbatim>\<open>__len__\<close> is the number of dependencies, so that
  an operator without dependencies is false.
\<close>

abbreviation object_truth :: "('m, 'c) LogicalOperator \<Rightarrow> bool" where
  "object_truth \<equiv> \<lambda>self. True"


section \<open>Properties\<close>

declare infer_metadata.simps [simp del] Limit_num_rows.simps [simp del]
  Limit_input_files.simps [simp del] infer_schema.simps [simp del]
  infer_metadata_st.simps [simp del] Limit_num_rows_st.simps [simp del]
  Limit_input_files_st.simps [simp del] infer_schema_st.simps [simp del]
  str_nat.simps [simp del]

subsection \<open>The methods by class and number of dependencies\<close>

lemma infer_metadata_Foreign:
  "infer_metadata (LogicalOperator n deps no (Foreign m s c)) = m"
  by (simp add: infer_metadata.simps)

lemma infer_metadata_Limit_arity:
  "length deps \<noteq> 1 \<Longrightarrow>
     infer_metadata (LogicalOperator n deps no (Limit l)) = Inl (AssertionError (length deps))"
  by (simp add: infer_metadata.simps Limit_num_rows.simps)

lemma infer_metadata_Limit_single:
  "infer_metadata (LogicalOperator n [d] no (Limit l)) =
     (case infer_metadata d of
        Inl e \<Rightarrow> Inl e
      | Inr m \<Rightarrow>
          Inr \<lparr>num_rows = (case num_rows m of Some r \<Rightarrow> Some (min r l) | None \<Rightarrow> None),
               size_bytes = None, input_files = input_files m, exec_stats = None\<rparr>)"
  by (simp add: infer_metadata.simps [of "LogicalOperator n [d] no (Limit l)"]
        Limit_num_rows.simps [of "LogicalOperator n [d] no (Limit l)"]
        Limit_input_files.simps [of "LogicalOperator n [d] no (Limit l)"]
      split: sum.split option.split)



lemma infer_schema_Limit_single:
  "infer_schema (LogicalOperator n [d] no (Limit l)) = infer_schema d"
  by (simp add: infer_schema.simps [of "LogicalOperator n [d] no (Limit l)"])









subsection \<open>Row count\<close>

text \<open>
  C1. A Limit operator with limit \<open>L \<ge> 0\<close> whose one dependency infers metadata with
  the known row count \<open>r\<close> infers metadata whose row count is \<open>min r L\<close>.
\<close>

theorem Limit_num_rows_known:
  fixes d :: "('s, 'e) operator"
  assumes "infer_metadata d = Inr m"
    and "num_rows m = Some r"
    and "0 \<le> L"
  shows "\<exists>m'. infer_metadata (LogicalOperator n [d] no (Limit L)) = Inr m'
              \<and> num_rows m' = Some (min r L)"
  using assms by (simp add: infer_metadata_Limit_single)

theorem Limit_num_rows_known_witness:
  "infer_metadata read_parquet =
     Inr \<lparr>num_rows = Some 1000, size_bytes = Some 4096,
          input_files = [''a.parquet'', ''b.parquet''], exec_stats = Some 7\<rparr>
   \<and> (0::int) \<le> 100
   \<and> Limit_init object_truth read_parquet 100 = LogicalOperator ''limit=100'' [read_parquet] None (Limit 100)
   \<and> (\<exists>m'. infer_metadata (Limit_init object_truth read_parquet 100) = Inr m' \<and> num_rows m' = Some 100)"
proof -
  have up: "infer_metadata read_parquet =
     Inr \<lparr>num_rows = Some 1000, size_bytes = Some 4096,
          input_files = [''a.parquet'', ''b.parquet''], exec_stats = Some 7\<rparr>"
    by (simp add: infer_metadata_Foreign)
  have built: "Limit_init object_truth read_parquet 100 =
      LogicalOperator ''limit=100'' [read_parquet] None (Limit 100)"
    by (simp add: Limit_init_def AbstractOneToOne_init_def str_int_def str_nat.simps)
  from Limit_num_rows_known [OF up, of 1000 100 "''limit=100''" None] up built
  show ?thesis by simp
qed

text \<open>
  C2. A Limit operator whose one dependency infers metadata with an unknown row count
  infers metadata whose row count is unknown, whatever the limit.
\<close>

theorem Limit_num_rows_unknown:
  fixes d :: "('s, 'e) operator"
  assumes "infer_metadata d = Inr m"
    and "num_rows m = None"
  shows "\<exists>m'. infer_metadata (LogicalOperator n [d] no (Limit L)) = Inr m'
              \<and> num_rows m' = None"
  using assms by (simp add: infer_metadata_Limit_single)

theorem Limit_num_rows_unknown_witness:
  "infer_metadata read_stream =
     Inr \<lparr>num_rows = None, size_bytes = Some 4096,
          input_files = [''a.parquet'', ''b.parquet''], exec_stats = Some 7\<rparr>
   \<and> Limit_init object_truth read_stream 100 = LogicalOperator ''limit=100'' [read_stream] None (Limit 100)
   \<and> (\<exists>m'. infer_metadata (Limit_init object_truth read_stream 100) = Inr m' \<and> num_rows m' = None)"
proof -
  have up: "infer_metadata read_stream =
     Inr \<lparr>num_rows = None, size_bytes = Some 4096,
          input_files = [''a.parquet'', ''b.parquet''], exec_stats = Some 7\<rparr>"
    by (simp add: infer_metadata_Foreign)
  have built: "Limit_init object_truth read_stream 100 =
      LogicalOperator ''limit=100'' [read_stream] None (Limit 100)"
    by (simp add: Limit_init_def AbstractOneToOne_init_def str_int_def str_nat.simps)
  from Limit_num_rows_unknown [OF up, of "''limit=100''" None 100] up built
  show ?thesis by simp
qed

subsection \<open>The dependency accessor\<close>

text \<open>
  C3, as the specification states it: \<open>input_dependency\<close> of an operator that does not
  have exactly one dependency fails and returns no value. It does not hold: a Limit
  object holding two dependencies gets the first of them back.
\<close>

theorem input_dependency_counterexample:
  "length (input_dependencies
       (LogicalOperator ''limit=10'' [read_parquet, read_stream] None (Limit 10))) \<noteq> 1
   \<and> input_dependency
       (LogicalOperator ''limit=10'' [read_parquet, read_stream] None (Limit 10))
     = Inr read_parquet"
  by (simp add: input_dependency_def)

text \<open>
  C3, amended. With no dependency \<open>input_dependency\<close> fails with an index error; an
  operator built by the constructor of \<open>AbstractOneToOne\<close> that does not have exactly
  one dependency has none, so there the call fails; with one dependency or more the
  first is returned, unchecked.
\<close>

theorem input_dependency_unchecked:
  fixes self :: "('m, 'c) LogicalOperator"
    and k :: "('m, 'c) kind"
  shows
  "(input_dependencies self = [] \<longrightarrow> input_dependency self = Inl IndexError)
   \<and> (\<forall>d ds. input_dependencies self = d # ds \<longrightarrow> input_dependency self = Inr d)
   \<and> (length (input_dependencies (AbstractOneToOne_init truth k n i no)) \<noteq> 1 \<longrightarrow>
        input_dependency (AbstractOneToOne_init truth k n i no) = Inl IndexError)"
  by (cases i) (simp_all add: input_dependency_def AbstractOneToOne_init_def)

theorem input_dependency_unchecked_witness:
  "input_dependencies (LogicalOperator ''limit=10'' [] None (Limit 10) :: (string, nat) operator) = []
   \<and> input_dependency (LogicalOperator ''limit=10'' [] None (Limit 10) :: (string, nat) operator)
       = Inl IndexError
   \<and> input_dependencies (LogicalOperator ''limit=10'' [read_parquet, read_stream] None (Limit 10))
       = read_parquet # [read_stream]
   \<and> input_dependency (LogicalOperator ''limit=10'' [read_parquet, read_stream] None (Limit 10))
       = Inr read_parquet
   \<and> length (input_dependencies
        (AbstractOneToOne_init object_truth (Limit 10) ''limit=10'' None None
           :: (string, nat) operator)) \<noteq> 1
   \<and> input_dependency
        (AbstractOneToOne_init object_truth (Limit 10) ''limit=10'' None None
           :: (string, nat) operator)
       = Inl IndexError"
proof -
  have none: "length (input_dependencies
        (AbstractOneToOne_init object_truth (Limit 10) ''limit=10'' None None
           :: (string, nat) operator)) \<noteq> 1"
    by (simp add: AbstractOneToOne_init_def)
  from input_dependency_unchecked
    [of "LogicalOperator ''limit=10'' [] None (Limit 10) :: (string, nat) operator"
        object_truth "Limit 10" "''limit=10''" None None]
  have empty: "input_dependency
          (LogicalOperator ''limit=10'' [] None (Limit 10) :: (string, nat) operator)
        = Inl IndexError"
    and built: "input_dependency
          (AbstractOneToOne_init object_truth (Limit 10) ''limit=10'' None None
           :: (string, nat) operator)
        = Inl IndexError"
    using none by simp_all
  from input_dependency_unchecked
    [of "LogicalOperator ''limit=10'' [read_parquet, read_stream] None (Limit 10)"
        object_truth "Limit 10" "''limit=10''" None None]
  have two: "input_dependency
          (LogicalOperator ''limit=10'' [read_parquet, read_stream] None (Limit 10))
        = Inr read_parquet"
    by simp
  from none empty built two show ?thesis by simp
qed




subsection \<open>Schema\<close>

text \<open>
  C5. A Limit operator with exactly one dependency infers the schema its dependency
  infers, present or absent (and raises what the dependency raises).
\<close>

theorem Limit_infer_schema_passes_through:
  "infer_schema (LogicalOperator n [d] no (Limit L)) = infer_schema d"
  by (simp add: infer_schema_Limit_single)

subsection \<open>Input files, size and statistics\<close>

text \<open>
  C6. A Limit operator with exactly one dependency infers metadata with the input files of
  the metadata its dependency infers: the same list.
\<close>

theorem Limit_input_files_inherited:
  fixes d :: "('s, 'e) operator"
  assumes "infer_metadata d = Inr m"
  shows "\<exists>m'. infer_metadata (LogicalOperator n [d] no (Limit L)) = Inr m'
              \<and> input_files m' = input_files m"
  using assms by (simp add: infer_metadata_Limit_single)

theorem Limit_input_files_inherited_witness:
  "infer_metadata read_parquet =
     Inr \<lparr>num_rows = Some 1000, size_bytes = Some 4096,
          input_files = [''a.parquet'', ''b.parquet''], exec_stats = Some 7\<rparr>
   \<and> Limit_init object_truth read_parquet 10 = LogicalOperator ''limit=10'' [read_parquet] None (Limit 10)
   \<and> (\<exists>m'. infer_metadata (Limit_init object_truth read_parquet 10) = Inr m'
          \<and> input_files m' = [''a.parquet'', ''b.parquet''])"
proof -
  have up: "infer_metadata read_parquet =
     Inr \<lparr>num_rows = Some 1000, size_bytes = Some 4096,
          input_files = [''a.parquet'', ''b.parquet''], exec_stats = Some 7\<rparr>"
    by (simp add: infer_metadata_Foreign)
  have built: "Limit_init object_truth read_parquet 10 =
      LogicalOperator ''limit=10'' [read_parquet] None (Limit 10)"
    by (simp add: Limit_init_def AbstractOneToOne_init_def str_int_def str_nat.simps)
  from Limit_input_files_inherited [OF up, of "''limit=10''" None 10] up built
  show ?thesis by simp
qed

text \<open>
  C7. Metadata inferred by a Limit operator has no byte size and no execution
  statistics, whatever its dependency reports; and a Limit operator with one dependency
  that infers metadata does infer metadata.
\<close>

theorem Limit_size_bytes_exec_stats_absent:
  fixes deps :: "('s, 'e) operator list"
  shows "(\<forall>m. infer_metadata (LogicalOperator n deps no (Limit L)) = Inr m \<longrightarrow>
            size_bytes m = None \<and> exec_stats m = None)
       \<and> (\<forall>d um. deps = [d] \<and> infer_metadata d = Inr um \<longrightarrow>
            (\<exists>m. infer_metadata (LogicalOperator n deps no (Limit L)) = Inr m))"
proof (cases "length deps = 1")
  case False
  then show ?thesis
    by (auto simp: infer_metadata_Limit_arity)
next
  case True
  then obtain d where "deps = [d]"
    by (auto simp: length_Suc_conv)
  then show ?thesis
    by (auto simp: infer_metadata_Limit_single split: sum.splits)
qed

theorem Limit_size_bytes_exec_stats_absent_witness:
  "infer_metadata (LogicalOperator ''limit=10'' [read_parquet] None (Limit 10)) =
     Inr \<lparr>num_rows = Some 10, size_bytes = None,
          input_files = [''a.parquet'', ''b.parquet''], exec_stats = None\<rparr>
   \<and> size_bytes \<lparr>num_rows = Some 10, size_bytes = None,
          input_files = [''a.parquet'', ''b.parquet''], exec_stats = None :: nat option\<rparr> = None
   \<and> exec_stats \<lparr>num_rows = Some 10, size_bytes = None,
          input_files = [''a.parquet'', ''b.parquet''], exec_stats = None :: nat option\<rparr> = None
   \<and> (\<exists>um. infer_metadata read_parquet = Inr um)"
  using Limit_size_bytes_exec_stats_absent
    [of "''limit=10''" "[read_parquet]" None 10]
  by (simp add: infer_metadata_Limit_single infer_metadata_Foreign)

subsection \<open>Row-count flag and partition count\<close>

text \<open>C8. \<open>can_modify_num_rows\<close> of a Limit operator is true.\<close>

theorem Limit_can_modify_num_rows:
  "can_modify_num_rows (LogicalOperator n deps no (Limit L))"
  by (simp add: can_modify_num_rows_def)

text \<open>
  C10. An operator built by the constructor of \<open>Limit\<close> has no fixed number of outputs,
  whatever the input operator and the limit.
\<close>

theorem Limit_init_num_outputs_absent:
  "num_outputs (Limit_init truth input_op L) = None"
  by (simp add: Limit_init_def AbstractOneToOne_init_def)

subsection \<open>Repeated inference\<close>




end
